theory Spec2Isabelle
  imports Complex_Main
begin

section \<open>The gear museum: profile generator and animator of src/App.jsx\<close>

text \<open>
  The embedding follows \<^verbatim>\<open>src/App.jsx\<close>, at two levels.

  The components are modelled in exact arithmetic: a JavaScript Number is a real number, and
  \<^verbatim>\<open>Math.cos\<close>, \<^verbatim>\<open>Math.sin\<close> and \<^verbatim>\<open>Math.PI\<close> are \<open>cos\<close>, \<open>sin\<close> and \<open>pi\<close>, which the language
  leaves to the implementation to approximate. Statements at this level are about which
  expressions the code evaluates, where it stores them and what it leaves alone, or about
  values that binary64 holds exactly.

  The products and sums of lines 15-17 and 25-27 are modelled a second time in binary64, the
  arithmetic the code runs on: every multiplication and addition rounds its exact result to
  the nearest double, ties to even. Statements that compare these values, or that equate
  two orders of evaluation, are made at this level.
\<close>

subsection \<open>The parts of three.js the component calls\<close>

text \<open>
  \<^verbatim>\<open>THREE.Shape\<close>, \<^verbatim>\<open>THREE.Path\<close> and the mesh object are the rendering library's, not the
  repository's. What follows transcribes the behaviour of the methods the component calls:
  a path keeps a current point, which a new path has at the origin, and a list of curves;
  \<^verbatim>\<open>lineTo\<close> appends the segment from the current point to its argument and moves the current
  point there; \<^verbatim>\<open>closePath\<close> appends the segment from the end of the last curve to the start
  of the first one when the two differ, and fails on a path with no curve (it reads
  \<^verbatim>\<open>curves[0]\<close>); \<^verbatim>\<open>absarc\<close> on a path with no curve appends one elliptic curve with equal
  radii and no rotation.
\<close>

type_synonym Vector2 = "real \<times> real"

record LineCurve =
  v1 :: Vector2
  v2 :: Vector2

record EllipseCurve =
  aX :: real
  aY :: real
  xRadius :: real
  yRadius :: real
  aStartAngle :: real
  aEndAngle :: real
  aClockwise :: bool
  aRotation :: real

text \<open>The outline of the component only ever receives segments, and its hole one arc.\<close>

record Shape =
  currentPoint :: Vector2
  curves :: "LineCurve list"
  holes :: "EllipseCurve list list"

datatype js_error = TypeError

definition new_Shape :: Shape where
  "new_Shape = \<lparr>currentPoint = (0, 0), curves = [], holes = []\<rparr>"

definition lineTo :: "real \<Rightarrow> real \<Rightarrow> Shape \<Rightarrow> Shape" where
  "lineTo px py s =
     s\<lparr>curves := curves s @ [\<lparr>v1 = currentPoint s, v2 = (px, py)\<rparr>],
       currentPoint := (px, py)\<rparr>"

text \<open>\<^verbatim>\<open>LineCurve.getPoint(t)\<close>: the end point at \<open>t = 1\<close>, else \<open>(v2 - v1) * t + v1\<close>.\<close>

definition getPoint :: "LineCurve \<Rightarrow> real \<Rightarrow> Vector2" where
  "getPoint c t =
     (if t = 1 then v2 c
      else ((fst (v2 c) - fst (v1 c)) * t + fst (v1 c),
            (snd (v2 c) - snd (v1 c)) * t + snd (v1 c)))"

definition closePath :: "Shape \<Rightarrow> js_error + Shape" where
  "closePath s =
     (if curves s = [] then Inl TypeError
      else
        let startPoint = getPoint (hd (curves s)) 0;
            endPoint = getPoint (last (curves s)) 1
        in if startPoint \<noteq> endPoint
           then Inr (s\<lparr>curves := curves s @ [\<lparr>v1 = endPoint, v2 = startPoint\<rparr>]\<rparr>)
           else Inr s)"

text \<open>
  \<^verbatim>\<open>new THREE.Path()\<close> followed by \<^verbatim>\<open>absarc(x, y, r, start, end, clockwise)\<close>: the curves of
  the resulting path.
\<close>

definition absarc :: "real \<Rightarrow> real \<Rightarrow> real \<Rightarrow> real \<Rightarrow> real \<Rightarrow> bool \<Rightarrow> EllipseCurve list" where
  "absarc px py r a0 a1 cw =
     [\<lparr>aX = px, aY = py, xRadius = r, yRadius = r, aStartAngle = a0, aEndAngle = a1,
       aClockwise = cw, aRotation = 0\<rparr>]"

text \<open>
  \<^verbatim>\<open>getPoints\<close> of a path of segments, the vertices the extrusion receives: both ends of every
  segment in turn, a point equal to the one before it being skipped.
\<close>

definition getPoints :: "LineCurve list \<Rightarrow> Vector2 list" where
  "getPoints cs = remdups_adj (concat (map (\<lambda>c. [getPoint c 0, getPoint c 1]) cs))"

text \<open>A three-component vector: the position of a mesh, and its Euler rotation.\<close>

record Vector3 =
  vx :: real
  vy :: real
  vz :: real

record Mesh =
  mesh_position :: Vector3
  mesh_rotation :: Vector3

subsection \<open>GearGeom\<close>

text \<open>The props of \<^verbatim>\<open>GearGeom\<close>, and their defaults.\<close>

record GearGeom_props =
  teeth :: real
  radius :: real
  width :: real
  color :: string
  speed :: real
  position :: Vector3
  rotation :: Vector3
  axis :: string

definition GearGeom_defaults :: GearGeom_props where
  "GearGeom_defaults =
     \<lparr>teeth = 12, radius = 1, width = 0.5, color = ''orange'', speed = 1,
      position = \<lparr>vx = 0, vy = 0, vz = 0\<rparr>, rotation = \<lparr>vx = 0, vy = 0, vz = 0\<rparr>,
      axis = ''y''\<rparr>"

text \<open>
  The animation loop of \<^verbatim>\<open>GearGeom\<close> (lines 13-19): nothing happens while the ref is empty;
  the three tests on the axis run one after the other.
\<close>

definition GearGeom_useFrame :: "GearGeom_props \<Rightarrow> real \<Rightarrow> Mesh option \<Rightarrow> Mesh option" where
  "GearGeom_useFrame props delta meshRef =
     (case meshRef of
        None \<Rightarrow> None
      | Some m \<Rightarrow>
          let m1 = (if axis props = ''y''
                    then m\<lparr>mesh_rotation := (mesh_rotation m)
                             \<lparr>vy := vy (mesh_rotation m) + speed props * delta\<rparr>\<rparr>
                    else m);
              m2 = (if axis props = ''x''
                    then m1\<lparr>mesh_rotation := (mesh_rotation m1)
                             \<lparr>vx := vx (mesh_rotation m1) + speed props * delta\<rparr>\<rparr>
                    else m1);
              m3 = (if axis props = ''z''
                    then m2\<lparr>mesh_rotation := (mesh_rotation m2)
                             \<lparr>vz := vz (mesh_rotation m2) + speed props * delta\<rparr>\<rparr>
                    else m2)
          in Some m3)"

text \<open>The derived radii (lines 25-27).\<close>

definition outerRadius :: "real \<Rightarrow> real" where
  "outerRadius r = r * 1.1"

definition innerRadius :: "real \<Rightarrow> real" where
  "innerRadius r = r * 0.9"

definition holeRadius :: "real \<Rightarrow> real" where
  "holeRadius r = r * 0.2"

text \<open>
  The loop that draws the teeth (lines 30-40): \<open>i\<close> counts up from 0 while \<open>i < n\<close>, and every
  round sends four \<^verbatim>\<open>lineTo\<close> to the shape; \<open>inner\<close> and \<open>outer\<close> are the two radii, computed
  before the loop.
\<close>

function draw_teeth :: "nat \<Rightarrow> real \<Rightarrow> real \<Rightarrow> real \<Rightarrow> Shape \<Rightarrow> Shape" where
  "draw_teeth i n inner outer s =
     (if real i < n then
        let angle = (real i / n) * pi * 2;
            angleNext = ((real i + 1) / n) * pi * 2;
            angleHalf = (angle + angleNext) / 2;
            s1 = lineTo (cos angle * inner) (sin angle * inner) s;
            s2 = lineTo (cos angle * outer) (sin angle * outer) s1;
            s3 = lineTo (cos angleHalf * outer) (sin angleHalf * outer) s2;
            s4 = lineTo (cos angleHalf * inner) (sin angleHalf * inner) s3
        in draw_teeth (i + 1) n inner outer s4
      else s)"
  by pat_completeness auto
termination
proof (relation "measure (\<lambda>(i, n, inner, outer, s). nat \<lceil>n\<rceil> - i)")
  show "wf (measure (\<lambda>(i, n, inner, outer, s). nat \<lceil>n\<rceil> - i))"
    by simp
next
  fix i :: nat and n inner outer :: real and s s4 :: Shape
  assume "real i < n"
  then have "int i < \<lceil>n\<rceil>"
    by linarith
  then show "((i + 1, n, inner, outer, s4), (i, n, inner, outer, s))
               \<in> measure (\<lambda>(i, n, inner, outer, s). nat \<lceil>n\<rceil> - i)"
    by simp
qed

declare draw_teeth.simps [simp del]

text \<open>The memoised shape (lines 22-48): it reads the props \<^verbatim>\<open>teeth\<close> and \<^verbatim>\<open>radius\<close> only.\<close>

definition GearGeom_shape :: "GearGeom_props \<Rightarrow> js_error + Shape" where
  "GearGeom_shape props =
     (let s = new_Shape;
          n = teeth props;
          outer = outerRadius (radius props);
          inner = innerRadius (radius props);
          hole_radius = holeRadius (radius props);
          s' = draw_teeth 0 n inner outer s
      in case closePath s' of
           Inl e \<Rightarrow> Inl e
         | Inr s'' \<Rightarrow>
             let hole = absarc 0 0 hole_radius 0 (pi * 2) False
             in Inr (s''\<lparr>holes := holes s'' @ [hole]\<rparr>))"

text \<open>The settings of the extrusion (line 50): the prop \<^verbatim>\<open>width\<close> is the depth.\<close>

record ExtrudeSettings =
  depth :: real
  bevelEnabled :: bool
  bevelSegments :: nat
  steps :: nat
  bevelSize :: real
  bevelThickness :: real

definition extrudeSettings :: "GearGeom_props \<Rightarrow> ExtrudeSettings" where
  "extrudeSettings props =
     \<lparr>depth = width props, bevelEnabled = True, bevelSegments = 2, steps = 1,
      bevelSize = 0.05, bevelThickness = 0.05\<rparr>"

text \<open>The mesh as mounted (line 53): position and rotation come from the props.\<close>

definition GearGeom_mount :: "GearGeom_props \<Rightarrow> Mesh" where
  "GearGeom_mount props = \<lparr>mesh_position = position props, mesh_rotation = rotation props\<rparr>"

subsection \<open>RackGeom\<close>

record RackGeom_props =
  rack_width :: real
  rack_speed :: real

definition RackGeom_defaults :: RackGeom_props where
  "RackGeom_defaults = \<lparr>rack_width = 4, rack_speed = 1\<rparr>"

definition RackGeom_mount :: Mesh where
  "RackGeom_mount =
     \<lparr>mesh_position = \<lparr>vx = 0, vy = - 1.1, vz = 0\<rparr>,
      mesh_rotation = \<lparr>vx = 0, vy = 0, vz = 0\<rparr>\<rparr>"

text \<open>
  The oscillation (lines 63-66): \<open>elapsedTime\<close> is \<^verbatim>\<open>state.clock.elapsedTime\<close>, the time since
  the clock started.
\<close>

definition RackGeom_useFrame :: "RackGeom_props \<Rightarrow> real \<Rightarrow> Mesh option \<Rightarrow> Mesh option" where
  "RackGeom_useFrame props elapsedTime meshRef =
     (case meshRef of
        None \<Rightarrow> None
      | Some m \<Rightarrow>
          Some (m\<lparr>mesh_position := (mesh_position m)
                    \<lparr>vx := sin (elapsedTime * rack_speed props) * 1.5\<rparr>\<rparr>))"

subsection \<open>SystemSpur\<close>

text \<open>The two gears of \<^verbatim>\<open>SystemSpur\<close> (lines 97-102), in the order of the source.\<close>

definition SystemSpur :: "GearGeom_props list" where
  "SystemSpur =
     [GearGeom_defaults\<lparr>position := \<lparr>vx = - 1.05, vy = 0, vz = 0\<rparr>, teeth := 12, radius := 1,
                        speed := 1, color := ''#ffaa00''\<rparr>,
      GearGeom_defaults\<lparr>position := \<lparr>vx = 1.05, vy = 0, vz = 0\<rparr>, teeth := 12, radius := 1,
                        speed := - 1, rotation := \<lparr>vx = 0, vy = 0, vz = pi / 12\<rparr>,
                        color := ''#00aaff''\<rparr>]"

text \<open>
  The frame loop is the rendering framework's: at every rendered frame it calls the callback
  that each mounted gear gave to \<^verbatim>\<open>useFrame\<close>, with the time since the frame before, and
  each callback works on the mesh of its own gear. A run of frames applies them in order.
\<close>

definition System_frame :: "GearGeom_props list \<Rightarrow> real \<Rightarrow> Mesh option list \<Rightarrow> Mesh option list" where
  "System_frame gs delta ms = map (\<lambda>(g, m). GearGeom_useFrame g delta m) (zip gs ms)"

definition System_mount :: "GearGeom_props list \<Rightarrow> Mesh option list" where
  "System_mount gs = map (\<lambda>g. Some (GearGeom_mount g)) gs"

fun System_run :: "GearGeom_props list \<Rightarrow> real list \<Rightarrow> Mesh option list \<Rightarrow> Mesh option list" where
  "System_run gs [] ms = ms"
| "System_run gs (delta # deltas) ms = System_run gs deltas (System_frame gs delta ms)"

subsection \<open>Binary64 arithmetic\<close>

text \<open>
  A Number is a finite double, an infinity or NaN. A finite double is given by its value; the
  two zeros are one value here, which the operations below do not tell apart.
\<close>

datatype Number = Finite real | PosInf | NegInf | NaN

text \<open>
  The binary exponent of a positive real, \<open>2 ^ e \<le> x < 2 ^ (e + 1)\<close>, found by halving or
  doubling.
\<close>

function ilog2 :: "real \<Rightarrow> int" where
  "ilog2 x =
     (if x \<le> 0 then 0
      else if x < 1 then ilog2 (x * 2) - 1
      else if 2 \<le> x then ilog2 (x / 2) + 1
      else 0)"
  by pat_completeness auto
termination
proof (relation "measure (\<lambda>x. nat \<lfloor>x\<rfloor> + 2 * nat \<lceil>1 / x\<rceil>)")
  show "wf (measure (\<lambda>x. nat \<lfloor>x\<rfloor> + 2 * nat \<lceil>1 / x\<rceil>))"
    by simp
next
  fix x :: real
  assume "\<not> x \<le> 0" and "x < 1"
  then have x: "0 < x" "x < 1" by simp_all
  have "\<lfloor>x * 2\<rfloor> \<le> 1" using x by (simp add: floor_le_iff)
  moreover have "\<lfloor>x\<rfloor> = 0" using x by (simp add: floor_eq_iff)
  moreover have "1 < 1 / x" using x by simp
  then have "2 \<le> \<lceil>1 / x\<rceil>" by (simp add: le_ceiling_iff)
  moreover have "1 / (x * 2) \<le> of_int (\<lceil>1 / x\<rceil> - 1)"
  proof -
    have "1 / (x * 2) = (1 / x) / 2" by simp
    also have "\<dots> \<le> of_int \<lceil>1 / x\<rceil> / 2" by (simp add: divide_right_mono)
    also have "\<dots> \<le> of_int (\<lceil>1 / x\<rceil> - 1)" using \<open>2 \<le> \<lceil>1 / x\<rceil>\<close> by simp
    finally show ?thesis .
  qed
  then have "\<lceil>1 / (x * 2)\<rceil> \<le> \<lceil>1 / x\<rceil> - 1" by (simp only: ceiling_le_iff)
  ultimately show "(x * 2, x) \<in> measure (\<lambda>x. nat \<lfloor>x\<rfloor> + 2 * nat \<lceil>1 / x\<rceil>)"
    unfolding in_measure by linarith
next
  fix x :: real
  assume "\<not> x \<le> 0" and "\<not> x < 1" and "2 \<le> x"
  then have x: "2 \<le> x" by simp
  have "x / 2 \<le> x - 1" using x by simp
  then have "\<lfloor>x / 2\<rfloor> \<le> \<lfloor>x - 1\<rfloor>" by (rule floor_mono)
  then have "\<lfloor>x / 2\<rfloor> \<le> \<lfloor>x\<rfloor> - 1" by simp
  moreover have "2 \<le> \<lfloor>x\<rfloor>" using x by (simp add: le_floor_iff)
  moreover have "\<lceil>1 / (x / 2)\<rceil> = 1" using x by (simp add: ceiling_eq_iff)
  moreover have "\<lceil>1 / x\<rceil> = 1" using x by (simp add: ceiling_eq_iff)
  ultimately show "(x / 2, x) \<in> measure (\<lambda>x. nat \<lfloor>x\<rfloor> + 2 * nat \<lceil>1 / x\<rceil>)"
    by simp
qed

declare ilog2.simps [simp del]

text \<open>
  Rounding to the nearest integer, ties to even; the spacing of the doubles around \<open>x\<close>, which
  is \<open>2 ^ -1074\<close> for subnormal \<open>x\<close>; and the double nearest to a real, an infinity when the
  rounded value is beyond the largest double.
\<close>

definition round_even :: "real \<Rightarrow> int" where
  "round_even y =
     (let f = \<lfloor>y\<rfloor>
      in if y - of_int f < 1 / 2 then f
         else if 1 / 2 < y - of_int f then f + 1
         else if even f then f else f + 1)"

definition quantum :: "real \<Rightarrow> real" where
  "quantum x = 2 powi (max (ilog2 \<bar>x\<bar>) (- 1022) - 52)"

definition round64 :: "real \<Rightarrow> Number" where
  "round64 x =
     (let y = of_int (round_even (x / quantum x)) * quantum x
      in if 2 powi 1024 \<le> \<bar>y\<bar> then (if 0 < x then PosInf else NegInf) else Finite y)"

text \<open>The Number that a decimal literal of the source denotes.\<close>

definition js_literal :: "real \<Rightarrow> Number" where
  "js_literal d = round64 d"

text \<open>The operators \<^verbatim>\<open>*\<close>, \<^verbatim>\<open>+\<close> and \<^verbatim>\<open>>\<close> on Numbers.\<close>

fun js_mul :: "Number \<Rightarrow> Number \<Rightarrow> Number" where
  "js_mul (Finite a) (Finite b) = round64 (a * b)"
| "js_mul (Finite a) PosInf = (if a = 0 then NaN else if 0 < a then PosInf else NegInf)"
| "js_mul (Finite a) NegInf = (if a = 0 then NaN else if 0 < a then NegInf else PosInf)"
| "js_mul PosInf (Finite b) = (if b = 0 then NaN else if 0 < b then PosInf else NegInf)"
| "js_mul NegInf (Finite b) = (if b = 0 then NaN else if 0 < b then NegInf else PosInf)"
| "js_mul PosInf PosInf = PosInf"
| "js_mul PosInf NegInf = NegInf"
| "js_mul NegInf PosInf = NegInf"
| "js_mul NegInf NegInf = PosInf"
| "js_mul NaN b = NaN"
| "js_mul a NaN = NaN"


fun js_gt :: "Number \<Rightarrow> Number \<Rightarrow> bool" where
  "js_gt (Finite a) (Finite b) = (b < a)"
| "js_gt (Finite a) NegInf = True"
| "js_gt PosInf (Finite b) = True"
| "js_gt PosInf NegInf = True"
| "js_gt a b = False"

text \<open>The derived radii (lines 25-27) as the code computes them.\<close>

definition outerRadius64 :: "Number \<Rightarrow> Number" where
  "outerRadius64 a = js_mul a (js_literal 1.1)"

definition innerRadius64 :: "Number \<Rightarrow> Number" where
  "innerRadius64 a = js_mul a (js_literal 0.9)"

definition holeRadius64 :: "Number \<Rightarrow> Number" where
  "holeRadius64 a = js_mul a (js_literal 0.2)"





subsection \<open>Notions for the statements\<close>

text \<open>
  The four points that round \<open>i\<close> of the loop sends to \<^verbatim>\<open>lineTo\<close>, in order, and the points of
  all rounds of a gear of \<open>k\<close> teeth.
\<close>

definition tooth_points :: "real \<Rightarrow> real \<Rightarrow> nat \<Rightarrow> Vector2 list" where
  "tooth_points n r i =
     (let angle = (real i / n) * pi * 2;
          angleNext = ((real i + 1) / n) * pi * 2;
          angleHalf = (angle + angleNext) / 2
      in [(cos angle * innerRadius r, sin angle * innerRadius r),
          (cos angle * outerRadius r, sin angle * outerRadius r),
          (cos angleHalf * outerRadius r, sin angleHalf * outerRadius r),
          (cos angleHalf * innerRadius r, sin angleHalf * innerRadius r)])"

definition gear_points :: "nat \<Rightarrow> real \<Rightarrow> Vector2 list" where
  "gear_points k r = concat (map (tooth_points (real k) r) [0..<k])"

text \<open>
  The segments that a run of \<^verbatim>\<open>lineTo\<close> through the points \<open>qs\<close> appends to a path whose current
  point is \<open>p\<close>, and that run itself.
\<close>

fun polyline :: "Vector2 \<Rightarrow> Vector2 list \<Rightarrow> LineCurve list" where
  "polyline p [] = []"
| "polyline p (q # qs) = \<lparr>v1 = p, v2 = q\<rparr> # polyline q qs"

definition lineTo_all :: "Vector2 list \<Rightarrow> Shape \<Rightarrow> Shape" where
  "lineTo_all qs s =
     s\<lparr>curves := curves s @ polyline (currentPoint s) qs,
       currentPoint := last (currentPoint s # qs)\<rparr>"

text \<open>The distance of a vertex from the origin.\<close>

definition vertex_distance :: "Vector2 \<Rightarrow> real" where
  "vertex_distance p = sqrt ((fst p)\<^sup>2 + (snd p)\<^sup>2)"

text \<open>
  A real is a double when rounding leaves it as it is. A run of frames from the rotation \<open>r\<close>
  with the speed \<open>s\<close> is exact when no product and no sum of it is rounded.
\<close>

definition is_binary64 :: "real \<Rightarrow> bool" where
  "is_binary64 x = (round64 x = Finite x)"





section \<open>The loop as a run of points\<close>

lemma lineTo_all_Nil: "lineTo_all [] s = s"
  by (simp add: lineTo_all_def)

lemma polyline_append: "polyline p (qs @ qs') = polyline p qs @ polyline (last (p # qs)) qs'"
  by (induction qs arbitrary: p) simp_all

lemma lineTo_all_append: "lineTo_all (qs @ qs') s = lineTo_all qs' (lineTo_all qs s)"
  by (simp add: lineTo_all_def polyline_append)

lemma four_lineTo:
  "lineTo a4 b4 (lineTo a3 b3 (lineTo a2 b2 (lineTo a1 b1 s))) =
   lineTo_all [(a1, b1), (a2, b2), (a3, b3), (a4, b4)] s"
  by (simp add: lineTo_all_def lineTo_def)

lemma draw_teeth_round:
  "real i < n \<Longrightarrow>
     draw_teeth i n (innerRadius r) (outerRadius r) s =
     draw_teeth (Suc i) n (innerRadius r) (outerRadius r) (lineTo_all (tooth_points n r i) s)"
  by (subst draw_teeth.simps) (simp add: Let_def four_lineTo tooth_points_def)

lemma draw_teeth_done: "\<not> real i < n \<Longrightarrow> draw_teeth i n inner outer s = s"
  by (subst draw_teeth.simps) simp

lemma draw_teeth_upt:
  "i \<le> k \<Longrightarrow> draw_teeth i (real k) (innerRadius r) (outerRadius r) s =
     lineTo_all (concat (map (tooth_points (real k) r) [i..<k])) s"
proof (induction "k - i" arbitrary: i s)
  case 0
  then show ?case by (simp add: draw_teeth_done lineTo_all_Nil)
next
  case (Suc d)
  then have lt: "i < k" by simp
  have "draw_teeth i (real k) (innerRadius r) (outerRadius r) s =
        draw_teeth (Suc i) (real k) (innerRadius r) (outerRadius r)
          (lineTo_all (tooth_points (real k) r i) s)"
    using lt by (simp add: draw_teeth_round)
  also have "\<dots> = lineTo_all (concat (map (tooth_points (real k) r) [Suc i..<k]))
                     (lineTo_all (tooth_points (real k) r i) s)"
    using Suc lt by simp
  also have "\<dots> = lineTo_all (concat (map (tooth_points (real k) r) [i..<k])) s"
    using lt by (simp add: upt_conv_Cons lineTo_all_append)
  finally show ?case .
qed

lemma length_tooth_points: "length (tooth_points n r i) = 4"
  by (simp add: tooth_points_def Let_def)

lemma length_concat_const:
  "(\<And>x. x \<in> set xss \<Longrightarrow> length x = m) \<Longrightarrow> length (concat xss) = m * length xss"
  by (induction xss) simp_all

lemma length_gear_points: "length (gear_points k r) = 4 * k"
  unfolding gear_points_def
  by (subst length_concat_const [where m = 4]) (auto simp: length_tooth_points)

lemma take_drop_concat_const:
  "(\<And>x. x \<in> set xss \<Longrightarrow> length x = m) \<Longrightarrow> i < length xss \<Longrightarrow>
   take m (drop (m * i) (concat xss)) = xss ! i"
proof (induction xss arbitrary: i)
  case Nil
  then show ?case by simp
next
  case (Cons xs xss)
  show ?case
  proof (cases i)
    case 0
    then show ?thesis using Cons.prems by simp
  next
    case (Suc j)
    have "length xs = m" using Cons.prems by simp
    then have "drop (m * i) (xs @ concat xss) = drop (m * j) (concat xss)"
      using Suc by simp
    then show ?thesis
      using Cons Suc by simp
  qed
qed

lemma gear_points_round:
  "i < k \<Longrightarrow> take 4 (drop (4 * i) (gear_points k r)) = tooth_points (real k) r i"
  unfolding gear_points_def
  by (subst take_drop_concat_const) (auto simp: length_tooth_points)

lemma take_drop_snoc:
  "n + m \<le> length xs \<Longrightarrow> take m (drop n (xs @ ys)) = take m (drop n xs)"
  by simp

lemma tooth_points_ne: "tooth_points n r i \<noteq> []"
  by (simp add: tooth_points_def Let_def)

lemma gear_points_eq_Nil: "gear_points k r = [] \<longleftrightarrow> k = 0"
  using length_gear_points [of k r] by (metis length_0_conv mult_is_0 zero_neq_numeral)

section \<open>The curves of the shape\<close>

lemma map_v2_polyline: "map v2 (polyline p qs) = qs"
  by (induction qs arbitrary: p) simp_all

lemma polyline_eq_Nil: "polyline p qs = [] \<longleftrightarrow> qs = []"
  by (cases qs) simp_all

lemma hd_polyline: "qs \<noteq> [] \<Longrightarrow> hd (polyline p qs) = \<lparr>v1 = p, v2 = hd qs\<rparr>"
  by (cases qs) simp_all

lemma last_polyline: "qs \<noteq> [] \<Longrightarrow> v2 (last (polyline p qs)) = last qs"
  using map_v2_polyline [of p qs] by (metis last_map polyline_eq_Nil)

lemma getPoint_0: "getPoint c 0 = v1 c"
  by (simp add: getPoint_def)

lemma getPoint_1: "getPoint c 1 = v2 c"
  by (simp add: getPoint_def)

lemma cos_sin_scaled_nonzero:
  fixes a R :: real
  shows "R \<noteq> 0 \<Longrightarrow> (cos a * R, sin a * R) \<noteq> (0, 0)"
proof
  assume R: "R \<noteq> 0" and "(cos a * R, sin a * R) = (0, 0)"
  then have "cos a = 0" "sin a = 0" by auto
  then have "(sin a)\<^sup>2 + (cos a)\<^sup>2 = 0" by simp
  then show False by simp
qed

lemma tooth_points_nonzero: "r \<noteq> 0 \<Longrightarrow> q \<in> set (tooth_points n r i) \<Longrightarrow> q \<noteq> (0, 0)"
  using cos_sin_scaled_nonzero [of "innerRadius r"] cos_sin_scaled_nonzero [of "outerRadius r"]
  by (auto simp: tooth_points_def Let_def innerRadius_def outerRadius_def)

lemma gear_points_nonzero: "r \<noteq> 0 \<Longrightarrow> q \<in> set (gear_points k r) \<Longrightarrow> q \<noteq> (0, 0)"
  by (auto simp: gear_points_def dest: tooth_points_nonzero)

lemma GearGeom_shape_eq:
  assumes "teeth props = real k" and "0 < k" and "radius props \<noteq> 0"
  shows "GearGeom_shape props =
     Inr \<lparr>currentPoint = last (gear_points k (radius props)),
          curves = polyline (0, 0) (gear_points k (radius props) @ [(0, 0)]),
          holes = [absarc 0 0 (holeRadius (radius props)) 0 (pi * 2) False]\<rparr>"
proof -
  let ?qs = "gear_points k (radius props)"
  let ?s = "draw_teeth 0 (teeth props) (innerRadius (radius props)) (outerRadius (radius props))
              new_Shape"
  have ne: "?qs \<noteq> []" using assms(2) by (simp add: gear_points_eq_Nil)
  have s: "?s = \<lparr>currentPoint = last ?qs, curves = polyline (0, 0) ?qs, holes = []\<rparr>"
    using ne by (simp add: assms(1) draw_teeth_upt gear_points_def [symmetric] lineTo_all_def new_Shape_def)
  have "last ?qs \<in> set ?qs" using ne by simp
  then have nz: "last ?qs \<noteq> (0, 0)" using assms(3) gear_points_nonzero by blast
  have "closePath ?s =
        Inr \<lparr>currentPoint = last ?qs, curves = polyline (0, 0) ?qs @ [\<lparr>v1 = last ?qs, v2 = (0, 0)\<rparr>],
             holes = []\<rparr>"
    using ne nz
    by (simp add: s closePath_def polyline_eq_Nil getPoint_0 getPoint_1 hd_polyline last_polyline Let_def)
  then show ?thesis
    using ne by (simp add: GearGeom_shape_def Let_def polyline_append)
qed

text \<open>
  With no tooth the loop does not run, and \<^verbatim>\<open>closePath\<close> fails on the empty path: the generator
  does not check its input.
\<close>

lemma GearGeom_shape_no_teeth: "teeth props \<le> 0 \<Longrightarrow> GearGeom_shape props = Inl TypeError"
  by (simp add: GearGeom_shape_def draw_teeth_done closePath_def new_Shape_def)

section \<open>The vertices of the outline\<close>

text \<open>
  No two consecutive points of the loop coincide: a point of the inner circle is not one of
  the outer circle, and two points of one circle half a tooth apart differ, half a tooth
  being no multiple of the full turn.
\<close>

lemma points_polyline:
  "remdups_adj (concat (map (\<lambda>c. [v1 c, v2 c]) (polyline p qs))) =
     (if qs = [] then [] else remdups_adj (p # qs))"
proof (induction qs arbitrary: p)
  case Nil
  then show ?case by simp
next
  case (Cons q qs)
  note IH = Cons.IH
  show ?case
  proof (cases qs)
    case Nil
    then show ?thesis by simp
  next
    case qs: (Cons q' qs')
    let ?C = "concat (map (\<lambda>c. [v1 c, v2 c]) (polyline q qs))"
    have "hd ?C = q" "?C \<noteq> []"
      using qs by simp_all
    then have "remdups_adj (q # ?C) = remdups_adj ?C"
      by (cases ?C) simp_all
    also have "\<dots> = remdups_adj (q # qs)"
      using IH [of q] qs by simp
    finally have "remdups_adj (p # q # ?C) = remdups_adj (p # q # qs)"
      by (simp only: remdups_adj_Cons [of p])
    then show ?thesis by simp
  qed
qed

lemma getPoints_polyline:
  "getPoints (polyline p qs) = (if qs = [] then [] else remdups_adj (p # qs))"
  by (simp add: getPoints_def getPoint_0 getPoint_1 points_polyline)

lemma cos_sin_scaled_neq:
  fixes a b R :: real
  assumes "R \<noteq> 0" and "\<not> (\<exists>n::int. b = a + 2 * pi * of_int n)"
  shows "(cos a * R, sin a * R) \<noteq> (cos b * R, sin b * R)"
proof
  assume "(cos a * R, sin a * R) = (cos b * R, sin b * R)"
  then have "sin b = sin a \<and> cos b = cos a"
    using assms(1) by simp
  then have "\<exists>n::int. b = a + 2 * pi * of_int n"
    by (simp only: sin_cos_eq_iff)
  then show False using assms(2) by simp
qed

lemma half_step_not_period:
  fixes a b :: real and k :: nat
  assumes "0 < k" and "b = a + pi / real k"
  shows "\<not> (\<exists>n::int. b = a + 2 * pi * of_int n)"
proof
  assume "\<exists>n::int. b = a + 2 * pi * of_int n"
  then obtain n :: int where "b = a + 2 * pi * of_int n" ..
  then have "pi / real k = 2 * pi * of_int n"
    using assms(2) by simp
  then have "1 = 2 * real_of_int n * real k"
    using assms(1) by (simp add: field_simps)
  then have "real_of_int 1 = real_of_int (2 * n * int k)"
    by simp
  then have "1 = 2 * (n * int k)"
    by (simp only: of_int_eq_iff mult.assoc)
  then have "even (1::int)"
    by (metis dvd_triv_left)
  then show False
    by simp
qed

lemma inner_outer_neq:
  fixes a r :: real
  assumes "r \<noteq> 0"
  shows "(cos a * innerRadius r, sin a * innerRadius r) \<noteq> (cos a * outerRadius r, sin a * outerRadius r)"
proof
  assume "(cos a * innerRadius r, sin a * innerRadius r) = (cos a * outerRadius r, sin a * outerRadius r)"
  then have "cos a * (r * 0.2) = 0" "sin a * (r * 0.2) = 0"
    by (simp_all add: innerRadius_def outerRadius_def algebra_simps)
  then have "(cos a * (r * 0.2), sin a * (r * 0.2)) = (0, 0)"
    by simp
  moreover have "r * 0.2 \<noteq> 0" using assms by simp
  ultimately show False
    using cos_sin_scaled_nonzero by blast
qed

lemma innerRadius_nonzero: "r \<noteq> 0 \<Longrightarrow> innerRadius r \<noteq> 0"
  by (simp add: innerRadius_def)

lemma outerRadius_nonzero: "r \<noteq> 0 \<Longrightarrow> outerRadius r \<noteq> 0"
  by (simp add: outerRadius_def)

lemma angleHalf_step:
  fixes k :: nat
  assumes "0 < k"
  shows "((real i / real k) * pi * 2 + ((real i + 1) / real k) * pi * 2) / 2
           = (real i / real k) * pi * 2 + pi / real k"
  using assms by (simp add: field_simps)

lemma angleNext_step:
  fixes k :: nat
  assumes "0 < k"
  shows "(real (Suc i) / real k) * pi * 2
           = ((real i / real k) * pi * 2 + ((real i + 1) / real k) * pi * 2) / 2 + pi / real k"
  using assms by (simp add: field_simps)

lemma distinct_adj_tooth_points:
  assumes "0 < k" and "r \<noteq> 0"
  shows "distinct_adj (tooth_points (real k) r i)"
proof -
  let ?a = "(real i / real k) * pi * 2"
  let ?h = "(?a + ((real i + 1) / real k) * pi * 2) / 2"
  have np: "\<not> (\<exists>n::int. ?h = ?a + 2 * pi * of_int n)"
    using half_step_not_period [OF assms(1) angleHalf_step [OF assms(1)]] .
  have "(cos ?a * outerRadius r, sin ?a * outerRadius r) \<noteq> (cos ?h * outerRadius r, sin ?h * outerRadius r)"
    using cos_sin_scaled_neq [OF outerRadius_nonzero [OF assms(2)] np] .
  moreover note inner_outer_neq [OF assms(2), of ?a] inner_outer_neq [OF assms(2), of ?h]
  ultimately show ?thesis
    by (simp add: tooth_points_def Let_def del: prod.inject)
qed

lemma tooth_points_last_hd:
  assumes "0 < k" and "r \<noteq> 0"
  shows "last (tooth_points (real k) r i) \<noteq> hd (tooth_points (real k) r (Suc i))"
proof -
  let ?a = "(real i / real k) * pi * 2"
  let ?h = "(?a + ((real i + 1) / real k) * pi * 2) / 2"
  let ?b = "(real (Suc i) / real k) * pi * 2"
  have np: "\<not> (\<exists>n::int. ?b = ?h + 2 * pi * of_int n)"
    using half_step_not_period [OF assms(1) angleNext_step [OF assms(1)]] .
  have "(cos ?h * innerRadius r, sin ?h * innerRadius r) \<noteq> (cos ?b * innerRadius r, sin ?b * innerRadius r)"
    using cos_sin_scaled_neq [OF innerRadius_nonzero [OF assms(2)] np] .
  then show ?thesis
    by (simp add: tooth_points_def Let_def del: prod.inject of_nat_Suc)
qed

lemma distinct_adj_rounds:
  assumes "0 < k" and "r \<noteq> 0"
  shows "distinct_adj (concat (map (tooth_points (real k) r) [0..<m]))"
proof (induction m)
  case 0
  then show ?case by simp
next
  case (Suc m)
  show ?case
  proof (cases m)
    case 0
    then show ?thesis using distinct_adj_tooth_points [OF assms] by simp
  next
    case (Suc j)
    have "last (concat (map (tooth_points (real k) r) [0..<m])) = last (tooth_points (real k) r j)"
      using Suc by (simp add: tooth_points_ne)
    then show ?thesis
      using Suc.IH Suc distinct_adj_tooth_points [OF assms] tooth_points_last_hd [OF assms, of j]
      by (simp add: distinct_adj_append_iff tooth_points_ne)
  qed
qed

lemma getPoints_gear:
  assumes "0 < k" and "r \<noteq> 0"
  shows "getPoints (polyline (0, 0) (gear_points k r @ [(0, 0)])) = (0, 0) # gear_points k r @ [(0, 0)]"
proof -
  let ?qs = "gear_points k r"
  have ne: "?qs \<noteq> []" using assms(1) by (simp add: gear_points_eq_Nil)
  then have "hd ?qs \<in> set ?qs" "last ?qs \<in> set ?qs" by simp_all
  then have "hd ?qs \<noteq> (0, 0)" "last ?qs \<noteq> (0, 0)"
    using gear_points_nonzero [OF assms(2)] by blast+
  moreover have "distinct_adj ?qs"
    unfolding gear_points_def using distinct_adj_rounds [OF assms] .
  ultimately have "distinct_adj ((0, 0) # ?qs @ [(0, 0)])"
    using ne by (simp add: distinct_adj_Cons distinct_adj_append_iff)
  then show ?thesis
    by (simp add: getPoints_polyline distinct_adj_altdef)
qed

section \<open>The animation step in closed form\<close>

lemma useFrame_Some:
  "GearGeom_useFrame props delta (Some m) =
     Some (m\<lparr>mesh_rotation := (mesh_rotation m)
       \<lparr>vx := vx (mesh_rotation m) + (if axis props = ''x'' then speed props * delta else 0),
        vy := vy (mesh_rotation m) + (if axis props = ''y'' then speed props * delta else 0),
        vz := vz (mesh_rotation m) + (if axis props = ''z'' then speed props * delta else 0)\<rparr>\<rparr>)"
  by (simp add: GearGeom_useFrame_def Let_def)

section \<open>Rounding to binary64\<close>

text \<open>The exponent function finds the binade of its argument, and only that one.\<close>

lemma ilog2_bounds: "0 < x \<Longrightarrow> 2 powi (ilog2 x) \<le> x \<and> x < 2 powi (ilog2 x + 1)"
proof (induction x rule: ilog2.induct)
  case (1 x)
  consider "x < 1" | "2 \<le> x" | "1 \<le> x" "x < 2" by linarith
  then show ?case
  proof cases
    case 1
    then have e: "ilog2 x = ilog2 (x * 2) - 1"
      using "1.prems" by (subst ilog2.simps) simp
    have "2 powi (ilog2 (x * 2)) \<le> x * 2 \<and> x * 2 < 2 powi (ilog2 (x * 2) + 1)"
      using "1.IH"(1) "1.prems" 1 by simp
    then show ?thesis
      by (simp add: e power_int_diff power_int_add)
  next
    case 2
    then have e: "ilog2 x = ilog2 (x / 2) + 1"
      using "1.prems" by (subst ilog2.simps) simp
    have "2 powi (ilog2 (x / 2)) \<le> x / 2 \<and> x / 2 < 2 powi (ilog2 (x / 2) + 1)"
      using "1.IH"(2) "1.prems" 2 by simp
    then show ?thesis
      by (simp add: e power_int_add)
  next
    case 3
    then have "ilog2 x = 0"
      by (subst ilog2.simps) simp
    then show ?thesis using 3 by simp
  qed
qed

lemma ilog2_unique:
  assumes "2 powi e \<le> x" and "x < 2 powi (e + 1)"
  shows "ilog2 x = e"
proof -
  have pos: "0 < x"
    using assms(1) by (smt (verit) zero_less_power_int)
  note b = ilog2_bounds [OF pos]
  have "\<not> ilog2 x < e"
  proof
    assume "ilog2 x < e"
    then have "(2::real) powi (ilog2 x + 1) \<le> 2 powi e"
      by (intro power_int_increasing) simp_all
    then show False using b assms(1) by linarith
  qed
  moreover have "\<not> e < ilog2 x"
  proof
    assume "e < ilog2 x"
    then have "(2::real) powi (e + 1) \<le> 2 powi (ilog2 x)"
      by (intro power_int_increasing) simp_all
    then show False using b assms(2) by linarith
  qed
  ultimately show ?thesis by linarith
qed

text \<open>
  The rounded value is within half a spacing of the exact one; the spacing at \<open>a\<close> is
  \<open>2 ^ -1074\<close> in the subnormal range and at most \<open>a * 2 ^ -52\<close> above it.
\<close>

lemma round_even_error: "\<bar>of_int (round_even y) - y\<bar> \<le> 1 / 2"
  unfolding round_even_def Let_def by (auto; linarith)

lemma quantum_pos: "0 < quantum x"
  by (simp add: quantum_def)

lemma quantum_subnormal:
  assumes "0 < x" and "x < 2 powi (- 1021)"
  shows "quantum x \<le> 2 powi (- 1074)"
proof -
  have "\<not> - 1021 \<le> ilog2 x"
  proof
    assume "- 1021 \<le> ilog2 x"
    then have "(2::real) powi (- 1021) \<le> 2 powi (ilog2 x)"
      by (intro power_int_increasing) simp_all
    then show False
      using ilog2_bounds [OF assms(1)] assms(2) by linarith
  qed
  then have "max (ilog2 \<bar>x\<bar>) (- 1022) - 52 \<le> - 1074"
    using assms(1) by simp
  then show ?thesis
    unfolding quantum_def by (intro power_int_increasing) simp_all
qed

lemma quantum_normal:
  assumes "2 powi (- 1022) \<le> x"
  shows "quantum x \<le> x * 2 powi (- 52)"
proof -
  have pos: "0 < x"
    using assms by (smt (verit) zero_less_power_int)
  have "\<not> ilog2 x < - 1022"
  proof
    assume "ilog2 x < - 1022"
    then have "(2::real) powi (ilog2 x + 1) \<le> 2 powi (- 1022)"
      by (intro power_int_increasing) simp_all
    then show False
      using ilog2_bounds [OF pos] assms by linarith
  qed
  then have "quantum x = 2 powi (ilog2 x - 52)"
    using pos by (simp add: quantum_def max_def)
  also have "\<dots> = 2 powi (ilog2 x) * 2 powi (- 52)"
    by (simp add: power_int_diff power_int_minus field_simps)
  also have "\<dots> \<le> x * 2 powi (- 52)"
    using ilog2_bounds [OF pos] by (intro mult_right_mono) simp_all
  finally show ?thesis .
qed

lemma quantum_le_top:
  assumes "0 < x" and "x < 2 powi 1024"
  shows "quantum x \<le> 2 powi 971"
proof -
  have "\<not> 1024 \<le> ilog2 x"
  proof
    assume "1024 \<le> ilog2 x"
    then have "(2::real) powi 1024 \<le> 2 powi (ilog2 x)"
      by (intro power_int_increasing) simp_all
    then show False
      using ilog2_bounds [OF assms(1)] assms(2) by linarith
  qed
  then have "max (ilog2 \<bar>x\<bar>) (- 1022) - 52 \<le> 971"
    using assms(1) by simp
  then show ?thesis
    unfolding quantum_def by (intro power_int_increasing) simp_all
qed

lemma round64_error:
  "\<exists>y. \<bar>y - x\<bar> \<le> quantum x / 2 \<and>
       round64 x = (if 2 powi 1024 \<le> \<bar>y\<bar> then (if 0 < x then PosInf else NegInf) else Finite y)"
proof -
  let ?n = "of_int (round_even (x / quantum x)) :: real"
  let ?y = "?n * quantum x"
  have q: "0 < quantum x" by (rule quantum_pos)
  have "?y - x = (?n - x / quantum x) * quantum x"
    using q by (simp add: left_diff_distrib)
  then have "\<bar>?y - x\<bar> = \<bar>?n - x / quantum x\<bar> * \<bar>quantum x\<bar>"
    by (simp only: abs_mult)
  also have "\<dots> = \<bar>?n - x / quantum x\<bar> * quantum x"
    using q by simp
  also have "\<dots> \<le> 1 / 2 * quantum x"
    using q round_even_error [of "x / quantum x"] by (simp only: mult_le_cancel_right_pos)
  finally have "\<bar>?y - x\<bar> \<le> quantum x / 2" by simp
  then show ?thesis
    by (intro exI [of _ ?y]) (simp add: round64_def Let_def)
qed

lemma quantum_bound:
  assumes "0 < a" and "a \<le> b"
  shows "quantum a \<le> max (2 powi (- 1074)) (b * 2 powi (- 52))"
proof (cases "a < 2 powi (- 1022)")
  case True
  then have "a < 2 powi (- 1021)"
    by (simp add: power_int_minus)
  then have "quantum a \<le> 2 powi (- 1074)"
    using assms(1) by (rule quantum_subnormal [rotated])
  then show ?thesis by simp
next
  case False
  then have "quantum a \<le> a * 2 powi (- 52)"
    by (intro quantum_normal) simp
  also have "\<dots> \<le> b * 2 powi (- 52)"
    using assms(2) by (intro mult_right_mono) simp_all
  finally show ?thesis by simp
qed

lemma round64_finite:
  assumes "0 < x" and "x \<le> 2 powi 1024 * (19 / 20)"
  obtains y where "round64 x = Finite y" and "\<bar>y - x\<bar> \<le> quantum x / 2"
proof -
  obtain y where y: "\<bar>y - x\<bar> \<le> quantum x / 2"
    and r: "round64 x = (if 2 powi 1024 \<le> \<bar>y\<bar> then (if 0 < x then PosInf else NegInf) else Finite y)"
    using round64_error by blast
  have "x < 2 powi 1024"
    using assms by simp
  then have "quantum x \<le> 2 powi 971"
    using assms(1) by (rule quantum_le_top [rotated])
  moreover have top: "(2::real) powi 1024 = 9007199254740992 * 2 powi 971"
  proof -
    have "(2::real) powi (53 + 971) = 2 powi 53 * 2 powi 971"
      by (rule power_int_add) simp
    then show ?thesis by simp
  qed
  moreover have "(0::real) < 2 powi 971"
    by simp
  ultimately have "\<bar>y\<bar> < 2 powi 1024"
    using y assms unfolding top by linarith
  then show ?thesis
    using that [of y] y r by simp
qed

text \<open>
  Two positive reals further apart than the spacing at the greater one round to different
  Numbers, in the same order; a real of at least \<open>2 ^ -1074\<close> rounds to a positive Number.
\<close>

lemma round64_gt:
  assumes "0 < a" and "a < b" and "a \<le> 2 powi 1024 * (19 / 20)"
    and "max (2 powi (- 1074)) (b * 2 powi (- 52)) < b - a"
  shows "js_gt (round64 b) (round64 a)"
proof -
  obtain ya where ya: "round64 a = Finite ya" "\<bar>ya - a\<bar> \<le> quantum a / 2"
    using assms(1,3) by (rule round64_finite)
  obtain yb where yb: "\<bar>yb - b\<bar> \<le> quantum b / 2"
    and rb: "round64 b = (if 2 powi 1024 \<le> \<bar>yb\<bar> then (if 0 < b then PosInf else NegInf) else Finite yb)"
    using round64_error by blast
  have "quantum a \<le> max (2 powi (- 1074)) (b * 2 powi (- 52))"
    using assms(1,2) by (intro quantum_bound) simp_all
  moreover have "quantum b \<le> max (2 powi (- 1074)) (b * 2 powi (- 52))"
    using assms(1,2) by (intro quantum_bound) simp_all
  ultimately have "ya < yb"
    using ya(2) yb assms(4) by linarith
  moreover have "0 < b"
    using assms(1,2) by simp
  ultimately show ?thesis
    by (simp add: ya(1) rb)
qed

lemma round64_pos:
  assumes "2 powi (- 1074) \<le> a" and "a \<le> 2 powi 1024 * (19 / 20)"
  shows "js_gt (round64 a) (Finite 0)"
proof -
  have pos: "0 < a"
    using assms(1) by (smt (verit) zero_less_power_int)
  obtain ya where ya: "round64 a = Finite ya" "\<bar>ya - a\<bar> \<le> quantum a / 2"
    using pos assms(2) by (rule round64_finite)
  have q: "quantum a \<le> max (2 powi (- 1074)) (a * 2 powi (- 52))"
    using pos by (intro quantum_bound) simp_all
  have "(2::real) powi (- 52) \<le> 1"
    by (simp add: power_int_minus)
  then have "a * 2 powi (- 52) \<le> a * 1"
    using pos by (intro mult_left_mono) simp_all
  then have "quantum a \<le> a"
    using q assms(1) by simp
  then have "0 < ya"
    using ya(2) pos by linarith
  then show ?thesis
    by (simp add: ya(1))
qed

text \<open>Rounding a real whose binade is known, and the literals of the source.\<close>

lemma round64_eval:
  assumes "2 powi e \<le> \<bar>x\<bar>" and "\<bar>x\<bar> < 2 powi (e + 1)"
    and "q = 2 powi (max e (- 1022) - 52)"
    and "round_even (x / q) = n"
    and "\<bar>of_int n * q\<bar> < 2 powi 1024"
  shows "round64 x = Finite (of_int n * q)"
proof -
  have "ilog2 \<bar>x\<bar> = e"
    using assms(1,2) by (rule ilog2_unique)
  then have "quantum x = q"
    by (simp add: quantum_def assms(3))
  then show ?thesis
    using assms(4,5) by (simp add: round64_def Let_def)
qed

lemma literal_1_1: "js_literal 1.1 = Finite (2476979795053773 / 2251799813685248)"
  unfolding js_literal_def
  by (subst round64_eval [where e = 0 and n = 4953959590107546 and q = "2 powi (- 52)"])
     (simp_all add: round_even_def Let_def power_int_minus)

lemma literal_0_9: "js_literal 0.9 = Finite (8106479329266893 / 9007199254740992)"
  unfolding js_literal_def
  by (subst round64_eval [where e = "- 1" and n = 8106479329266893 and q = "2 powi (- 53)"])
     (simp_all add: round_even_def Let_def power_int_minus)

lemma literal_0_2: "js_literal 0.2 = Finite (3602879701896397 / 18014398509481984)"
  unfolding js_literal_def
  by (subst round64_eval [where e = "- 3" and n = 7205759403792794 and q = "2 powi (- 55)"])
     (simp_all add: round_even_def Let_def power_int_minus)



section \<open>The radii\<close>

text \<open>
  In the exact model the first segment of the outline ends at the inner radius, the second
  at the outer radius, and the hole has the hole radius: the three products of lines 25-27.
\<close>

lemma GearGeom_shape_radii:
  assumes "0 < k" and "teeth props = real k" and "radius props = r" and "r \<noteq> 0"
  shows "case GearGeom_shape props of
           Inl e \<Rightarrow> False
         | Inr s \<Rightarrow>
             map v2 (take 2 (curves s)) = [(r * 0.9, 0), (r * 1.1, 0)] \<and>
             map xRadius (concat (holes s)) = [r * 0.2]"
proof -
  let ?qs = "gear_points k r"
  have shape: "GearGeom_shape props =
     Inr \<lparr>currentPoint = last ?qs, curves = polyline (0, 0) (?qs @ [(0, 0)]),
          holes = [absarc 0 0 (holeRadius r) 0 (pi * 2) False]\<rparr>"
    using GearGeom_shape_eq [OF assms(2) assms(1)] assms(3,4) by simp
  have "?qs = tooth_points (real k) r 0 @ concat (map (tooth_points (real k) r) [Suc 0..<k])"
    using assms(1) by (simp add: gear_points_def upt_conv_Cons)
  then have "take 2 (?qs @ [(0, 0)]) = [(innerRadius r, 0), (outerRadius r, 0)]"
    by (simp add: tooth_points_def Let_def)
  then have "map v2 (take 2 (polyline (0, 0) (?qs @ [(0, 0)]))) = [(innerRadius r, 0), (outerRadius r, 0)]"
    by (simp only: take_map [symmetric] map_v2_polyline)
  then show ?thesis
    by (simp add: shape absarc_def innerRadius_def outerRadius_def holeRadius_def)
qed

text \<open>
  In binary64 the three products are strictly ordered and positive for every finite radius of
  at least \<open>5 * 2 ^ -1074\<close>; the greatest may be infinite.
\<close>

lemma radii64_ordered:
  assumes lo: "5 * 2 powi (- 1074) \<le> r" and hi: "r < 2 powi 1024"
  shows "js_gt (outerRadius64 (Finite r)) (innerRadius64 (Finite r)) \<and>
         js_gt (innerRadius64 (Finite r)) (holeRadius64 (Finite r)) \<and>
         js_gt (holeRadius64 (Finite r)) (Finite 0)"
proof -
  let ?c11 = "2476979795053773 / 2251799813685248 :: real"
  let ?c09 = "8106479329266893 / 9007199254740992 :: real"
  let ?c02 = "3602879701896397 / 18014398509481984 :: real"
  define U :: real where "U = 2 powi (- 1074)"
  define T :: real where "T = 2 powi 1024"
  have U: "0 < U" and T: "0 < T"
    by (simp_all add: U_def T_def)
  have r: "5 * U \<le> r" "r < T"
    using lo hi by (simp_all add: U_def T_def)
  have e: "(2::real) powi (- 52) = 1 / 4503599627370496"
    by (simp add: power_int_minus)
  have outer: "outerRadius64 (Finite r) = round64 (r * ?c11)"
    and inner: "innerRadius64 (Finite r) = round64 (r * ?c09)"
    and hole: "holeRadius64 (Finite r) = round64 (r * ?c02)"
    by (simp_all only: outerRadius64_def innerRadius64_def holeRadius64_def
        literal_1_1 literal_0_9 literal_0_2 js_mul.simps)
  have "js_gt (round64 (r * ?c11)) (round64 (r * ?c09))"
  proof (rule round64_gt)
    show "0 < r * ?c09" using r U by simp
    show "r * ?c09 < r * ?c11" using r U by simp
    show "r * ?c09 \<le> 2 powi 1024 * (19 / 20)"
      using r U T unfolding T_def [symmetric] by simp
    show "max (2 powi (- 1074)) (r * ?c11 * 2 powi (- 52)) < r * ?c11 - r * ?c09"
      using r U T unfolding U_def [symmetric] e by simp
  qed
  moreover have "js_gt (round64 (r * ?c09)) (round64 (r * ?c02))"
  proof (rule round64_gt)
    show "0 < r * ?c02" using r U by simp
    show "r * ?c02 < r * ?c09" using r U by simp
    show "r * ?c02 \<le> 2 powi 1024 * (19 / 20)"
      using r U T unfolding T_def [symmetric] by simp
    show "max (2 powi (- 1074)) (r * ?c09 * 2 powi (- 52)) < r * ?c09 - r * ?c02"
      using r U T unfolding U_def [symmetric] e by simp
  qed
  moreover have "js_gt (round64 (r * ?c02)) (Finite 0)"
  proof (rule round64_pos)
    show "2 powi (- 1074) \<le> r * ?c02"
      using r U T unfolding U_def [symmetric] by simp
    show "r * ?c02 \<le> 2 powi 1024 * (19 / 20)"
      using r U T unfolding T_def [symmetric] by simp
  qed
  ultimately show ?thesis
    by (simp only: outer inner hole)
qed

text \<open>
  Below that bound they are not: at \<open>2 ^ -1074\<close>, the least positive double, the outer and
  the inner radius are both \<open>2 ^ -1074\<close> and the hole radius is 0, and at \<open>4 * 2 ^ -1074\<close> the
  outer and the inner radius are still equal. At radius 1 they are the three literals.
\<close>

lemma radii64_at_min_value:
  "outerRadius64 (Finite (2 powi (- 1074))) = Finite (2 powi (- 1074))"
  "innerRadius64 (Finite (2 powi (- 1074))) = Finite (2 powi (- 1074))"
  "holeRadius64 (Finite (2 powi (- 1074))) = Finite 0"
proof -
  let ?U = "2 powi (- 1074) :: real"
  have "round64 (?U * (2476979795053773 / 2251799813685248)) = Finite (of_int 1 * 2 powi (- 1074))"
    by (rule round64_eval [where e = "- 1074"])
       (simp_all add: round_even_def Let_def power_int_minus)
  then show "outerRadius64 (Finite ?U) = Finite ?U"
    by (simp only: outerRadius64_def literal_1_1 js_mul.simps) simp
  have "round64 (?U * (8106479329266893 / 9007199254740992)) = Finite (of_int 1 * 2 powi (- 1074))"
    by (rule round64_eval [where e = "- 1075"])
       (simp_all add: round_even_def Let_def power_int_minus)
  then show "innerRadius64 (Finite ?U) = Finite ?U"
    by (simp only: innerRadius64_def literal_0_9 js_mul.simps) simp
  have "round64 (?U * (3602879701896397 / 18014398509481984)) = Finite (of_int 0 * 2 powi (- 1074))"
    by (rule round64_eval [where e = "- 1077"])
       (simp_all add: round_even_def Let_def power_int_minus)
  then show "holeRadius64 (Finite ?U) = Finite 0"
    by (simp only: holeRadius64_def literal_0_2 js_mul.simps) simp
qed

lemma min_value_binary64: "is_binary64 (2 powi (- 1074))"
  unfolding is_binary64_def
  by (subst round64_eval [where e = "- 1074" and n = 1 and q = "2 powi (- 1074)"])
     (simp_all add: round_even_def Let_def power_int_minus)

lemma radii64_at_four_min_values:
  "outerRadius64 (Finite (4 * 2 powi (- 1074))) = Finite (4 * 2 powi (- 1074))"
  "innerRadius64 (Finite (4 * 2 powi (- 1074))) = Finite (4 * 2 powi (- 1074))"
proof -
  let ?U = "2 powi (- 1074) :: real"
  have "round64 (4 * ?U * (2476979795053773 / 2251799813685248)) = Finite (of_int 4 * 2 powi (- 1074))"
    by (rule round64_eval [where e = "- 1072"])
       (simp_all add: round_even_def Let_def power_int_minus)
  then show "outerRadius64 (Finite (4 * ?U)) = Finite (4 * ?U)"
    by (simp only: outerRadius64_def literal_1_1 js_mul.simps) simp
  have "round64 (4 * ?U * (8106479329266893 / 9007199254740992)) = Finite (of_int 4 * 2 powi (- 1074))"
    by (rule round64_eval [where e = "- 1073"])
       (simp_all add: round_even_def Let_def power_int_minus)
  then show "innerRadius64 (Finite (4 * ?U)) = Finite (4 * ?U)"
    by (simp only: innerRadius64_def literal_0_9 js_mul.simps) simp
qed

lemma radii64_at_one:
  "outerRadius64 (Finite 1) = Finite (2476979795053773 / 2251799813685248)"
  "innerRadius64 (Finite 1) = Finite (8106479329266893 / 9007199254740992)"
  "holeRadius64 (Finite 1) = Finite (3602879701896397 / 18014398509481984)"
proof -
  have "round64 (1 * (2476979795053773 / 2251799813685248)) =
        Finite (of_int 4953959590107546 * 2 powi (- 52))"
    by (rule round64_eval [where e = 0]) (simp_all add: round_even_def Let_def power_int_minus)
  then show "outerRadius64 (Finite 1) = Finite (2476979795053773 / 2251799813685248)"
    by (simp only: outerRadius64_def literal_1_1 js_mul.simps) (simp add: power_int_minus)
  have "round64 (1 * (8106479329266893 / 9007199254740992)) =
        Finite (of_int 8106479329266893 * 2 powi (- 53))"
    by (rule round64_eval [where e = "- 1"]) (simp_all add: round_even_def Let_def power_int_minus)
  then show "innerRadius64 (Finite 1) = Finite (8106479329266893 / 9007199254740992)"
    by (simp only: innerRadius64_def literal_0_9 js_mul.simps) (simp add: power_int_minus)
  have "round64 (1 * (3602879701896397 / 18014398509481984)) =
        Finite (of_int 7205759403792794 * 2 powi (- 55))"
    by (rule round64_eval [where e = "- 3"]) (simp_all add: round_even_def Let_def power_int_minus)
  then show "holeRadius64 (Finite 1) = Finite (3602879701896397 / 18014398509481984)"
    by (simp only: holeRadius64_def literal_0_2 js_mul.simps) (simp add: power_int_minus)
qed

text \<open>
  Claim C2, as stated, asks for the strict order at every positive radius. At the radius
  \<open>2 ^ -1074\<close>, a double greater than 0, the code computes equal outer and inner radii and
  the hole radius 0.
\<close>

theorem radii_collapse_at_min_value:
  "is_binary64 (2 powi (- 1074)) \<and>
   js_gt (Finite (2 powi (- 1074))) (Finite 0) \<and>
   outerRadius64 (Finite (2 powi (- 1074))) = Finite (2 powi (- 1074)) \<and>
   innerRadius64 (Finite (2 powi (- 1074))) = Finite (2 powi (- 1074)) \<and>
   holeRadius64 (Finite (2 powi (- 1074))) = Finite 0 \<and>
   \<not> js_gt (outerRadius64 (Finite (2 powi (- 1074)))) (innerRadius64 (Finite (2 powi (- 1074)))) \<and>
   \<not> js_gt (holeRadius64 (Finite (2 powi (- 1074)))) (Finite 0)"
  by (simp only: radii64_at_min_value min_value_binary64 js_gt.simps) simp

text \<open>
  Claim C2, amended. For a gear with at least one tooth and a finite radius \<open>r\<close> of at least
  \<open>5 * 2 ^ -1074\<close>, the generator derives the three radii as the products of \<open>r\<close> with 1.1,
  0.9 and 0.2: its outline goes to the inner and then to the outer radius, and its hole has
  the hole radius; and the three products, as the code computes them in binary64, satisfy
  outer > inner > hole > 0.
\<close>

theorem generator_radii_ordered:
  "0 < k \<Longrightarrow> teeth props = real k \<Longrightarrow> radius props = r \<Longrightarrow>
   5 * 2 powi (- 1074) \<le> r \<Longrightarrow> r < 2 powi 1024 \<Longrightarrow>
     (case GearGeom_shape props of
        Inl e \<Rightarrow> False
      | Inr s \<Rightarrow>
          map v2 (take 2 (curves s)) = [(r * 0.9, 0), (r * 1.1, 0)] \<and>
          map xRadius (concat (holes s)) = [r * 0.2]) \<and>
     js_gt (outerRadius64 (Finite r)) (innerRadius64 (Finite r)) \<and>
     js_gt (innerRadius64 (Finite r)) (holeRadius64 (Finite r)) \<and>
     js_gt (holeRadius64 (Finite r)) (Finite 0)"
proof -
  assume k: "0 < k" and t: "teeth props = real k" and r: "radius props = r"
    and lo: "5 * 2 powi (- 1074) \<le> r" and hi: "r < 2 powi 1024"
  have "(0::real) < 5 * 2 powi (- 1074)"
    by simp
  then have "r \<noteq> 0"
    using lo by linarith
  then show ?thesis
    using GearGeom_shape_radii [OF k t r] radii64_ordered [OF lo hi] by simp
qed

theorem generator_radii_ordered_witness:
  "(0::nat) < 12 \<and> teeth GearGeom_defaults = real 12 \<and> radius GearGeom_defaults = 1 \<and>
   5 * 2 powi (- 1074) \<le> (1::real) \<and> (1::real) < 2 powi 1024 \<and>
   (case GearGeom_shape GearGeom_defaults of
      Inl e \<Rightarrow> False
    | Inr s \<Rightarrow>
        map v2 (take 2 (curves s)) = [(0.9, 0), (1.1, 0)] \<and>
        map xRadius (concat (holes s)) = [0.2]) \<and>
   outerRadius64 (Finite 1) = Finite (2476979795053773 / 2251799813685248) \<and>
   innerRadius64 (Finite 1) = Finite (8106479329266893 / 9007199254740992) \<and>
   holeRadius64 (Finite 1) = Finite (3602879701896397 / 18014398509481984) \<and>
   js_gt (outerRadius64 (Finite 1)) (innerRadius64 (Finite 1)) \<and>
   js_gt (innerRadius64 (Finite 1)) (holeRadius64 (Finite 1)) \<and>
   js_gt (holeRadius64 (Finite 1)) (Finite 0)"
proof -
  have h: "(0::nat) < 12" "teeth GearGeom_defaults = real 12" "radius GearGeom_defaults = 1"
    "5 * 2 powi (- 1074) \<le> (1::real)" "(1::real) < 2 powi 1024"
    by (simp_all add: GearGeom_defaults_def power_int_minus)
  have "(case GearGeom_shape GearGeom_defaults of
      Inl e \<Rightarrow> False
    | Inr s \<Rightarrow>
        map v2 (take 2 (curves s)) = [(1 * 0.9, 0), (1 * 1.1, 0)] \<and>
        map xRadius (concat (holes s)) = [1 * 0.2]) \<and>
     js_gt (outerRadius64 (Finite 1)) (innerRadius64 (Finite 1)) \<and>
     js_gt (innerRadius64 (Finite 1)) (holeRadius64 (Finite 1)) \<and>
     js_gt (holeRadius64 (Finite 1)) (Finite 0)"
    by (rule generator_radii_ordered [OF h])
  then show ?thesis
    using h radii64_at_one by (simp split: sum.splits)
qed

section \<open>Frames in binary64\<close>













section \<open>The profile generator\<close>

text \<open>
  Every point that the loop sends to \<^verbatim>\<open>lineTo\<close> lies on the inner or on the outer circle.
\<close>

lemma gear_points_distance:
  assumes "0 < r" and "q \<in> set (gear_points k r)"
  shows "vertex_distance q = innerRadius r \<or> vertex_distance q = outerRadius r"
proof -
  have circle: "sqrt ((cos a * R)\<^sup>2 + (sin a * R)\<^sup>2) = R" if "0 < R" for a R :: real
  proof -
    have "(cos a * R)\<^sup>2 + (sin a * R)\<^sup>2 = ((cos a)\<^sup>2 + (sin a)\<^sup>2) * R\<^sup>2"
      by (simp only: power_mult_distrib distrib_right)
    also have "\<dots> = R\<^sup>2"
      by simp
    finally show ?thesis
      using that by simp
  qed
  have "0 < innerRadius r" "0 < outerRadius r"
    using assms(1) by (simp_all add: innerRadius_def outerRadius_def)
  then show ?thesis
    using assms(2) circle
    by (auto simp: gear_points_def tooth_points_def Let_def vertex_distance_def)
qed

text \<open>
  Claim C5. For a gear of \<open>k \<ge> 3\<close> teeth and of positive radius, the shape is built, and the
  four segments that round \<open>i < k\<close> of the loop appends end, in this order, at the point of
  the inner circle at \<open>angle\<close>, the point of the outer circle at \<open>angle\<close>, the point of the
  outer circle at \<open>angleMid\<close> and the point of the inner circle at \<open>angleMid\<close>, where \<open>angle\<close> is
  \<open>i / k * 2 * pi\<close> and \<open>angleMid\<close> the midpoint of \<open>angle\<close> and the angle of the next round.
\<close>

theorem sector_emits_four_points:
  "3 \<le> k \<Longrightarrow> teeth props = real k \<Longrightarrow> 0 < radius props \<Longrightarrow> i < k \<Longrightarrow>
     (case GearGeom_shape props of
        Inl e \<Rightarrow> False
      | Inr s \<Rightarrow>
          map v2 (take 4 (drop (4 * i) (curves s))) =
            (let angle = real i / real k * 2 * pi;
                 angleNext = real (i + 1) / real k * 2 * pi;
                 angleMid = (angle + angleNext) / 2;
                 inner = innerRadius (radius props);
                 outer = outerRadius (radius props)
             in [(cos angle * inner, sin angle * inner),
                 (cos angle * outer, sin angle * outer),
                 (cos angleMid * outer, sin angleMid * outer),
                 (cos angleMid * inner, sin angleMid * inner)]))"
proof -
  assume k: "3 \<le> k" and t: "teeth props = real k" and r: "0 < radius props" and i: "i < k"
  let ?qs = "gear_points k (radius props)"
  have shape: "GearGeom_shape props =
     Inr \<lparr>currentPoint = last ?qs, curves = polyline (0, 0) (?qs @ [(0, 0)]),
          holes = [absarc 0 0 (holeRadius (radius props)) 0 (pi * 2) False]\<rparr>"
    using GearGeom_shape_eq [OF t] k r by simp
  have "4 * i + 4 \<le> length ?qs"
    using i by (simp add: length_gear_points)
  then have "take 4 (drop (4 * i) (?qs @ [(0, 0)])) = take 4 (drop (4 * i) ?qs)"
    by (rule take_drop_snoc)
  then have "map v2 (take 4 (drop (4 * i) (polyline (0, 0) (?qs @ [(0, 0)])))) =
        tooth_points (real k) (radius props) i"
    using i by (simp only: take_map [symmetric] drop_map [symmetric] map_v2_polyline gear_points_round)
  moreover have "tooth_points (real k) (radius props) i =
      (let angle = real i / real k * 2 * pi;
           angleNext = real (i + 1) / real k * 2 * pi;
           angleMid = (angle + angleNext) / 2;
           inner = innerRadius (radius props);
           outer = outerRadius (radius props)
       in [(cos angle * inner, sin angle * inner),
           (cos angle * outer, sin angle * outer),
           (cos angleMid * outer, sin angleMid * outer),
           (cos angleMid * inner, sin angleMid * inner)])"
    by (simp add: tooth_points_def Let_def ac_simps)
  ultimately show ?thesis
    by (simp only: shape sum.case Shape.select_convs)
qed

theorem sector_emits_four_points_witness:
  "(3::nat) \<le> 3 \<and> teeth (GearGeom_defaults\<lparr>teeth := 3\<rparr>) = real 3 \<and>
   0 < radius (GearGeom_defaults\<lparr>teeth := 3\<rparr>) \<and> (0::nat) < 3 \<and>
   (case GearGeom_shape (GearGeom_defaults\<lparr>teeth := 3\<rparr>) of
      Inl e \<Rightarrow> False
    | Inr s \<Rightarrow>
        map v2 (take 4 (drop (4 * 0) (curves s))) =
          [(0.9, 0), (1.1, 0), (cos (pi / 3) * 1.1, sin (pi / 3) * 1.1),
           (cos (pi / 3) * 0.9, sin (pi / 3) * 0.9)])"
proof -
  let ?p = "GearGeom_defaults\<lparr>teeth := 3\<rparr>"
  have h: "(3::nat) \<le> 3" "teeth ?p = real 3" "0 < radius ?p" "(0::nat) < 3"
    by (simp_all add: GearGeom_defaults_def)
  show ?thesis
    using h sector_emits_four_points [OF h]
    by (simp add: Let_def innerRadius_def outerRadius_def GearGeom_defaults_def split: sum.splits)
qed

text \<open>
  Claim C10. For a gear of \<open>k \<ge> 3\<close> teeth and of positive radius, the first curve of the
  outline is the segment from the origin, the current point of the new shape, to the first
  point of the inner circle; the vertices of the outline are the origin, the \<open>4 * k\<close> points
  of the loop, and the origin again, where \<^verbatim>\<open>closePath\<close> returns to the start of the first
  curve; so the outline has a vertex at distance 0 from the origin.
\<close>

theorem outline_starts_at_origin:
  "3 \<le> k \<Longrightarrow> teeth props = real k \<Longrightarrow> 0 < radius props \<Longrightarrow>
     (case GearGeom_shape props of
        Inl e \<Rightarrow> False
      | Inr s \<Rightarrow>
          hd (curves s) = \<lparr>v1 = (0, 0), v2 = (innerRadius (radius props), 0)\<rparr> \<and>
          getPoints (curves s) = (0, 0) # gear_points k (radius props) @ [(0, 0)] \<and>
          length (gear_points k (radius props)) = 4 * k \<and>
          vertex_distance (hd (getPoints (curves s))) = 0)"
proof -
  assume k: "3 \<le> k" and t: "teeth props = real k" and r: "0 < radius props"
  let ?qs = "gear_points k (radius props)"
  have shape: "GearGeom_shape props =
     Inr \<lparr>currentPoint = last ?qs, curves = polyline (0, 0) (?qs @ [(0, 0)]),
          holes = [absarc 0 0 (holeRadius (radius props)) 0 (pi * 2) False]\<rparr>"
    using GearGeom_shape_eq [OF t] k r by simp
  have pts: "getPoints (polyline (0, 0) (?qs @ [(0, 0)])) = (0, 0) # ?qs @ [(0, 0)]"
    using getPoints_gear [of k "radius props"] k r by simp
  have "?qs = tooth_points (real k) (radius props) 0 @
              concat (map (tooth_points (real k) (radius props)) [Suc 0..<k])"
    using k by (simp add: gear_points_def upt_conv_Cons)
  then have "hd ?qs = (innerRadius (radius props), 0)"
    by (simp add: tooth_points_def Let_def)
  moreover have "?qs \<noteq> []"
    using k by (simp add: gear_points_eq_Nil)
  ultimately have "hd (polyline (0, 0) (?qs @ [(0, 0)])) =
      \<lparr>v1 = (0, 0), v2 = (innerRadius (radius props), 0)\<rparr>"
    by (simp add: hd_polyline)
  then show ?thesis
    by (simp add: shape pts length_gear_points vertex_distance_def)
qed

theorem outline_starts_at_origin_witness:
  "(3::nat) \<le> 3 \<and> teeth (GearGeom_defaults\<lparr>teeth := 3\<rparr>) = real 3 \<and>
   0 < radius (GearGeom_defaults\<lparr>teeth := 3\<rparr>) \<and>
   (case GearGeom_shape (GearGeom_defaults\<lparr>teeth := 3\<rparr>) of
      Inl e \<Rightarrow> False
    | Inr s \<Rightarrow>
        hd (curves s) = \<lparr>v1 = (0, 0), v2 = (0.9, 0)\<rparr> \<and>
        hd (getPoints (curves s)) = (0, 0) \<and>
        length (getPoints (curves s)) = 14)"
proof -
  let ?p = "GearGeom_defaults\<lparr>teeth := 3\<rparr>"
  have h: "(3::nat) \<le> 3" "teeth ?p = real 3" "0 < radius ?p"
    by (simp_all add: GearGeom_defaults_def)
  show ?thesis
    using h outline_starts_at_origin [OF h]
    by (simp add: innerRadius_def GearGeom_defaults_def split: sum.splits)
qed

text \<open>
  Claim C1 asks for an outline of exactly \<open>4 * toothCount\<close> vertices, each on the inner or
  the outer circle, and one hole. At the default props, twelve teeth and radius 1, the hole is
  the one circle of radius 0.2 about the origin, but the outline has 50 vertices, the first
  of which is the origin, at distance 0, where the inner radius is 0.9 and the outer 1.1:
  the loop starts with \<^verbatim>\<open>lineTo\<close> on a new shape, with no \<^verbatim>\<open>moveTo\<close> before it.
\<close>

theorem twelve_teeth_outline_has_origin_vertex:
  "(case GearGeom_shape GearGeom_defaults of
      Inl e \<Rightarrow> False
    | Inr s \<Rightarrow>
        length (getPoints (curves s)) = 50 \<and>
        hd (getPoints (curves s)) = (0, 0) \<and>
        vertex_distance (hd (getPoints (curves s))) = 0 \<and>
        innerRadius (radius GearGeom_defaults) = 0.9 \<and>
        outerRadius (radius GearGeom_defaults) = 1.1 \<and>
        holes s = [absarc 0 0 0.2 0 (pi * 2) False])"
proof -
  have t: "teeth GearGeom_defaults = real 12" and r: "radius GearGeom_defaults = 1"
    by (simp_all add: GearGeom_defaults_def)
  have pts: "getPoints (polyline (0, 0) (gear_points 12 1 @ [(0, 0)])) =
      (0, 0) # gear_points 12 1 @ [(0, 0)]"
    by (rule getPoints_gear) simp_all
  show ?thesis
    using GearGeom_shape_eq [OF t]
    by (simp add: r pts length_gear_points vertex_distance_def innerRadius_def outerRadius_def
        holeRadius_def)
qed

text \<open>
  Claim C6 asks that the closed path start and end at the start of sector 0, the point of
  the inner circle at angle 0. At the default props that point is \<open>(0.9, 0)\<close>, the end of the
  first curve; the first curve starts at the origin, and the closing curve ends there.
\<close>

theorem twelve_teeth_path_closes_at_origin:
  "(case GearGeom_shape GearGeom_defaults of
      Inl e \<Rightarrow> False
    | Inr s \<Rightarrow>
        v1 (hd (curves s)) = (0, 0) \<and>
        v2 (hd (curves s)) = (cos 0 * innerRadius 1, sin 0 * innerRadius 1) \<and>
        v2 (last (curves s)) = (0, 0) \<and>
        hd (getPoints (curves s)) = (0, 0) \<and>
        last (getPoints (curves s)) = (0, 0) \<and>
        (cos 0 * innerRadius 1, sin 0 * innerRadius 1) = (0.9, 0) \<and>
        (0.9, 0) \<noteq> ((0, 0) :: Vector2))"
proof -
  have t: "teeth GearGeom_defaults = real 12" and r: "radius GearGeom_defaults = 1"
    by (simp_all add: GearGeom_defaults_def)
  let ?qs = "gear_points 12 1"
  have pts: "getPoints (polyline (0, 0) (?qs @ [(0, 0)])) = (0, 0) # ?qs @ [(0, 0)]"
    by (rule getPoints_gear) simp_all
  have "?qs = tooth_points (real 12) 1 0 @ concat (map (tooth_points (real 12) 1) [Suc 0..<12])"
    by (simp add: gear_points_def upt_conv_Cons)
  then have "hd ?qs = (cos 0 * innerRadius 1, sin 0 * innerRadius 1)"
    by (simp add: tooth_points_def Let_def)
  moreover have ne: "?qs \<noteq> []"
    by (simp add: gear_points_eq_Nil)
  ultimately have hd: "hd (polyline (0, 0) (?qs @ [(0, 0)])) =
      \<lparr>v1 = (0, 0), v2 = (cos 0 * innerRadius 1, sin 0 * innerRadius 1)\<rparr>"
    by (simp add: hd_polyline)
  have last: "v2 (last (polyline (0, 0) (?qs @ [(0, 0)]))) = (0, 0)"
    by (simp add: last_polyline)
  show ?thesis
    using GearGeom_shape_eq [OF t] hd last
    by (simp add: r pts innerRadius_def)
qed

text \<open>
  Claim C9. Two gears with the same \<^verbatim>\<open>teeth\<close> and \<^verbatim>\<open>radius\<close> have the same shape, whatever
  their other props are; the prop \<^verbatim>\<open>width\<close> is the depth of the extrusion.
\<close>

theorem shape_depends_on_teeth_and_radius_only:
  "teeth p = teeth q \<Longrightarrow> radius p = radius q \<Longrightarrow>
     GearGeom_shape p = GearGeom_shape q \<and> depth (extrudeSettings p) = width p"
  by (simp add: GearGeom_shape_def extrudeSettings_def split: sum.split)

theorem shape_depends_on_teeth_and_radius_only_witness:
  "GearGeom_shape (GearGeom_defaults\<lparr>width := 0.2, color := ''gold'', speed := 0.1,
      position := \<lparr>vx = 0, vy = - 0.5, vz = 0\<rparr>, rotation := \<lparr>vx = 0, vy = 0, vz = pi / 12\<rparr>,
      axis := ''z''\<rparr>) = GearGeom_shape GearGeom_defaults \<and>
   depth (extrudeSettings (GearGeom_defaults\<lparr>width := 0.2, color := ''gold'', speed := 0.1,
      position := \<lparr>vx = 0, vy = - 0.5, vz = 0\<rparr>, rotation := \<lparr>vx = 0, vy = 0, vz = pi / 12\<rparr>,
      axis := ''z''\<rparr>)) = 0.2"
  using shape_depends_on_teeth_and_radius_only
    [of "GearGeom_defaults\<lparr>width := 0.2, color := ''gold'', speed := 0.1,
      position := \<lparr>vx = 0, vy = - 0.5, vz = 0\<rparr>, rotation := \<lparr>vx = 0, vy = 0, vz = pi / 12\<rparr>,
      axis := ''z''\<rparr>" GearGeom_defaults]
  by simp

section \<open>The animator\<close>

text \<open>
  Claim C8. A frame of a mounted gear leaves the position of the mesh as it was, and the
  rotation about every axis but the chosen one; when the prop \<^verbatim>\<open>axis\<close> is none of \<open>x\<close>, \<open>y\<close>
  and \<open>z\<close>, it leaves the whole mesh as it was.
\<close>

theorem useFrame_changes_axis_rotation_only:
  "GearGeom_useFrame props delta (Some m) = Some m' \<Longrightarrow>
     mesh_position m' = mesh_position m \<and>
     (axis props \<noteq> ''x'' \<longrightarrow> vx (mesh_rotation m') = vx (mesh_rotation m)) \<and>
     (axis props \<noteq> ''y'' \<longrightarrow> vy (mesh_rotation m') = vy (mesh_rotation m)) \<and>
     (axis props \<noteq> ''z'' \<longrightarrow> vz (mesh_rotation m') = vz (mesh_rotation m)) \<and>
     (axis props \<noteq> ''x'' \<and> axis props \<noteq> ''y'' \<and> axis props \<noteq> ''z'' \<longrightarrow> m' = m)"
  by (auto simp: useFrame_Some)

theorem useFrame_changes_axis_rotation_only_witness:
  "GearGeom_useFrame (GearGeom_defaults\<lparr>axis := ''w''\<rparr>) 1 (Some RackGeom_mount) = Some RackGeom_mount \<and>
   GearGeom_useFrame GearGeom_defaults 1 (Some RackGeom_mount) =
     Some \<lparr>mesh_position = \<lparr>vx = 0, vy = - 1.1, vz = 0\<rparr>,
           mesh_rotation = \<lparr>vx = 0, vy = 1, vz = 0\<rparr>\<rparr> \<and>
   mesh_position \<lparr>mesh_position = \<lparr>vx = 0, vy = - 1.1, vz = 0\<rparr>,
                  mesh_rotation = \<lparr>vx = 0, vy = 1, vz = 0\<rparr>\<rparr> = mesh_position RackGeom_mount"
proof -
  let ?w = "GearGeom_defaults\<lparr>axis := ''w''\<rparr>"
  let ?m' = "\<lparr>mesh_position = \<lparr>vx = 0, vy = - 1.1, vz = 0\<rparr>,
              mesh_rotation = \<lparr>vx = 0, vy = 1, vz = 0\<rparr>\<rparr>"
  have w: "GearGeom_useFrame ?w 1 (Some RackGeom_mount) = Some RackGeom_mount"
    by (simp add: GearGeom_useFrame_def GearGeom_defaults_def)
  have y: "GearGeom_useFrame GearGeom_defaults 1 (Some RackGeom_mount) = Some ?m'"
    by (simp add: GearGeom_useFrame_def GearGeom_defaults_def RackGeom_mount_def)
  show ?thesis
    using useFrame_changes_axis_rotation_only [OF w] useFrame_changes_axis_rotation_only [OF y] w y
    by simp
qed

text \<open>
  Claim C7. The two gears of \<^verbatim>\<open>SystemSpur\<close> have the speeds 1 and -1 and turn about \<open>y\<close>; they
  are mounted with the rotation 0 about that axis, and after two frames of one second each
  the first has the rotation 2 about it and the second -2: 2 more and 2 less than mounted.
\<close>

theorem spur_two_seconds:
  "System_mount SystemSpur =
     [Some \<lparr>mesh_position = \<lparr>vx = - 1.05, vy = 0, vz = 0\<rparr>,
            mesh_rotation = \<lparr>vx = 0, vy = 0, vz = 0\<rparr>\<rparr>,
      Some \<lparr>mesh_position = \<lparr>vx = 1.05, vy = 0, vz = 0\<rparr>,
            mesh_rotation = \<lparr>vx = 0, vy = 0, vz = pi / 12\<rparr>\<rparr>] \<and>
   System_run SystemSpur [1, 1] (System_mount SystemSpur) =
     [Some \<lparr>mesh_position = \<lparr>vx = - 1.05, vy = 0, vz = 0\<rparr>,
            mesh_rotation = \<lparr>vx = 0, vy = 0 + 2, vz = 0\<rparr>\<rparr>,
      Some \<lparr>mesh_position = \<lparr>vx = 1.05, vy = 0, vz = 0\<rparr>,
            mesh_rotation = \<lparr>vx = 0, vy = 0 - 2, vz = pi / 12\<rparr>\<rparr>]"
  by (simp add: SystemSpur_def System_mount_def System_frame_def GearGeom_mount_def
      GearGeom_defaults_def useFrame_Some)

text \<open>
  Claim C4. At the elapsed time \<open>t\<close> the frame of a mounted rack sets the \<open>x\<close> of its position
  to \<open>1.5 * sin (t * speed)\<close>, 1.5 being the amplitude, and changes nothing else; at \<open>t = 0\<close>
  it sets it to 0.
\<close>

theorem rack_oscillates:
  "RackGeom_useFrame props t (Some m) =
     Some (m\<lparr>mesh_position := (mesh_position m)\<lparr>vx := 1.5 * sin (t * rack_speed props)\<rparr>\<rparr>) \<and>
   RackGeom_useFrame props 0 (Some m) =
     Some (m\<lparr>mesh_position := (mesh_position m)\<lparr>vx := 0\<rparr>\<rparr>)"
  by (simp add: RackGeom_useFrame_def)

end
